theory Spec2Isabelle
  imports Complex_Main
begin

section \<open>Options pricing tool: the pricing and risk engine\<close>

text \<open>
  The engine of \<^verbatim>\<open>models.py\<close> and the risk section of \<^verbatim>\<open>main.py\<close>, function by
  function.  A finite double is modelled as a real number and its arithmetic as exact
  arithmetic; a NumPy array is a list.  An option type and an action are the strings
  the code compares with \<^verbatim>\<open>'call'\<close> and \<^verbatim>\<open>'buy'\<close>: every other string takes the
  \<^verbatim>\<open>else\<close> branch, as in the source.
\<close>

subsection \<open>Array primitives of NumPy used by the engine\<close>

text \<open>\<^verbatim>\<open>arr - k\<close>, \<^verbatim>\<open>k - arr\<close>, \<^verbatim>\<open>k * arr\<close>, \<^verbatim>\<open>np.maximum(arr, c)\<close>, \<^verbatim>\<open>np.zeros_like(arr)\<close>
  and the sum of two arrays of one shape.\<close>

definition arr_sub_scalar :: "real list \<Rightarrow> real \<Rightarrow> real list" where
  "arr_sub_scalar arr k = map (\<lambda>v. v - k) arr"

definition scalar_sub_arr :: "real \<Rightarrow> real list \<Rightarrow> real list" where
  "scalar_sub_arr k arr = map (\<lambda>v. k - v) arr"

definition scalar_mul_arr :: "real \<Rightarrow> real list \<Rightarrow> real list" where
  "scalar_mul_arr k arr = map (\<lambda>v. k * v) arr"

definition np_maximum :: "real list \<Rightarrow> real \<Rightarrow> real list" where
  "np_maximum arr c = map (\<lambda>v. max v c) arr"

definition np_zeros_like :: "real list \<Rightarrow> real list" where
  "np_zeros_like arr = map (\<lambda>_. 0) arr"

definition arr_add :: "real list \<Rightarrow> real list \<Rightarrow> real list" where
  "arr_add xs ys = map2 (+) xs ys"

subsection \<open>Payoff primitives\<close>

text \<open>\<^verbatim>\<open>option_payoff(S_range, K, option_type)\<close>, line 39 of \<^verbatim>\<open>models.py\<close>.\<close>

definition option_payoff :: "real list \<Rightarrow> real \<Rightarrow> string \<Rightarrow> real list" where
  "option_payoff S_range K option_type =
     (if option_type = ''call'' then np_maximum (arr_sub_scalar S_range K) 0
      else np_maximum (scalar_sub_arr K S_range) 0)"

text \<open>A position is the dictionary with the keys \<^verbatim>\<open>type\<close>, \<^verbatim>\<open>strike\<close>, \<^verbatim>\<open>action\<close>,
  \<^verbatim>\<open>quantity\<close> and \<^verbatim>\<open>premium\<close> that \<^verbatim>\<open>main.py\<close> builds; the quantity is the integer
  of the contracts widget.\<close>

record position =
  ptype :: string
  strike :: real
  action :: string
  quantity :: int
  premium :: real

text \<open>The body of the loop of \<^verbatim>\<open>strategy_payoff\<close>: one position updates the pair
  \<^verbatim>\<open>(total_payoff, total_cost)\<close>.\<close>

definition multiplier :: "position \<Rightarrow> int" where
  "multiplier pos = quantity pos * (if action pos = ''buy'' then 1 else - 1)"

definition strategy_step :: "real list \<Rightarrow> real list \<times> real \<Rightarrow> position \<Rightarrow> real list \<times> real" where
  "strategy_step S_range acc pos =
     (let payoff_vals = option_payoff S_range (strike pos) (ptype pos);
          m = multiplier pos
      in (arr_add (fst acc) (scalar_mul_arr (real_of_int m) payoff_vals),
          snd acc + real_of_int m * premium pos))"

fun strategy_loop :: "real list \<Rightarrow> real list \<times> real \<Rightarrow> position list \<Rightarrow> real list \<times> real" where
  "strategy_loop S_range acc [] = acc"
| "strategy_loop S_range acc (pos # positions) =
     strategy_loop S_range (strategy_step S_range acc pos) positions"

definition strategy_payoff :: "real list \<Rightarrow> position list \<Rightarrow> real list" where
  "strategy_payoff S_range positions =
     (let (total_payoff, total_cost) = strategy_loop S_range (np_zeros_like S_range, 0) positions
      in arr_sub_scalar total_payoff total_cost)"

subsection \<open>Range and grid builder\<close>



subsection \<open>Analytic pricer\<close>

text \<open>\<^verbatim>\<open>norm.cdf\<close> is SciPy's standard normal distribution function.  The engine only
  calls it, so it is an argument \<open>norm_cdf\<close> of the two functions that use it, and a
  theorem names the property of the distribution function it relies on.
  \<^verbatim>\<open>norm.pdf\<close> is the standard normal density.  The decorator \<^verbatim>\<open>st.cache_data\<close> on
  \<^verbatim>\<open>black_scholes\<close>, \<^verbatim>\<open>calculate_greeks\<close> and \<^verbatim>\<open>get_price_range\<close> stores results of
  functions of their arguments alone, and does not show in their values.\<close>

definition norm_pdf :: "real \<Rightarrow> real" where
  "norm_pdf x = exp (- (x ^ 2) / 2) / sqrt (2 * pi)"

definition black_scholes ::
  "(real \<Rightarrow> real) \<Rightarrow> real \<Rightarrow> real \<Rightarrow> real \<Rightarrow> real \<Rightarrow> real \<Rightarrow> string \<Rightarrow> real" where
  "black_scholes norm_cdf S K T r sigma option_type =
     (let d1 = (ln (S / K) + (r + 0.5 * sigma ^ 2) * T) / (sigma * sqrt T);
          d2 = d1 - sigma * sqrt T
      in if option_type = ''call''
         then S * norm_cdf d1 - K * exp (- r * T) * norm_cdf d2
         else K * exp (- r * T) * norm_cdf (- d2) - S * norm_cdf (- d1))"

record greeks =
  Delta :: real
  Gamma :: real
  Theta :: real
  Vega :: real

definition calculate_greeks ::
  "(real \<Rightarrow> real) \<Rightarrow> real \<Rightarrow> real \<Rightarrow> real \<Rightarrow> real \<Rightarrow> real \<Rightarrow> string \<Rightarrow> greeks" where
  "calculate_greeks norm_cdf S K T r sigma option_type =
     (let d1 = (ln (S / K) + (r + 0.5 * sigma ^ 2) * T) / (sigma * sqrt T);
          delta = (if option_type = ''call'' then norm_cdf d1 else norm_cdf d1 - 1);
          gamma = norm_pdf d1 / (S * sigma * sqrt T);
          theta_calc = - S * norm_pdf d1 * sigma / (2 * sqrt T);
          theta = (if option_type = ''call''
                   then (theta_calc - r * K * exp (- r * T) * norm_cdf (d1 - sigma * sqrt T)) / 365
                   else (theta_calc + r * K * exp (- r * T) * norm_cdf (- (d1 - sigma * sqrt T))) / 365);
          vega = S * norm_pdf d1 * sqrt T / 100
      in \<lparr>Delta = delta, Gamma = gamma, Theta = theta, Vega = vega\<rparr>)"

text \<open>A concrete function with the two properties of a distribution function that the
  analytic pricer relies on (symmetry about 0 and values in \<open>[0, 1]\<close>); it stands for
  \<open>norm_cdf\<close> where a theorem is applied to concrete numbers.\<close>

definition logistic :: "real \<Rightarrow> real" where
  "logistic x = 1 / (1 + exp (- x))"

subsection \<open>Doubles that may be nan\<close>

text \<open>Exact arithmetic never yields nan, NumPy's reductions do: the mean of an empty
  array is \<^verbatim>\<open>0.0 / 0\<close>, and a nan in an array is the result of its mean and of its
  percentile.  An array element is therefore a finite number or nan (infinities are
  not modelled); a comparison with nan is false, also \<^verbatim>\<open>nan == nan\<close>.\<close>

datatype npfloat = NaN | Num real



fun np_mul :: "npfloat \<Rightarrow> npfloat \<Rightarrow> npfloat" where
  "np_mul (Num a) (Num b) = Num (a * b)"
| "np_mul _ _ = NaN"

text \<open>The numbers of an array, when none of its elements is nan.\<close>

fun nums :: "npfloat list \<Rightarrow> real list option" where
  "nums [] = Some []"
| "nums (NaN # arr) = None"
| "nums (Num x # arr) = map_option ((#) x) (nums arr)"

text \<open>\<^verbatim>\<open>np.mean(arr)\<close> and \<^verbatim>\<open>arr.mean()\<close>: the sum divided by the number of elements.\<close>

definition np_mean :: "npfloat list \<Rightarrow> npfloat" where
  "np_mean arr =
     (case nums arr of
        None \<Rightarrow> NaN
      | Some xs \<Rightarrow> if length xs = 0 then NaN else Num (sum_list xs / real (length xs)))"




subsection \<open>Risk statistics\<close>



subsection \<open>Simulation pricer\<close>

text \<open>The state of NumPy's global generator is the sequence of standard normal
  variates it is going to return: \<^verbatim>\<open>np.random.standard_normal(n)\<close> returns the first
  \<open>n\<close> of them and leaves the rest.\<close>

type_synonym rng = "nat \<Rightarrow> real"

definition standard_normal :: "nat \<Rightarrow> rng \<Rightarrow> real list \<times> rng" where
  "standard_normal n g = (map g [0..<n], \<lambda>i. g (n + i))"

text \<open>The body of \<^verbatim>\<open>monte_carlo_option\<close>, lines 59 to 63 of \<^verbatim>\<open>models.py\<close>.  The number of
  simulations is the natural number of the slider.\<close>

type_synonym mc_args = "real \<times> real \<times> real \<times> real \<times> real \<times> nat \<times> string"

type_synonym mc_result = "npfloat \<times> real list"

definition monte_carlo_option_body :: "mc_args \<Rightarrow> rng \<Rightarrow> mc_result \<times> rng" where
  "monte_carlo_option_body = (\<lambda>(S, K, T, r, sigma, simulations, option_type) g.
     (let (Z, g') = standard_normal simulations g;
          S_T = map (\<lambda>z. S * exp ((r - 0.5 * sigma ^ 2) * T + sigma * sqrt T * z)) Z;
          payoffs = option_payoff S_T K option_type
      in ((np_mul (Num (exp (- r * T))) (np_mean (map Num payoffs)), S_T), g')))"

text \<open>\<^verbatim>\<open>@st.cache_data\<close>: Streamlit keeps, for the decorated function, the result of every
  call under its arguments.  A call whose arguments are stored returns the stored
  result and does not run the body; any other call runs the body and stores what it
  returns.  The state that a call reads and leaves is the store of the function and
  the generator.\<close>

record app_state =
  cache :: "mc_args \<rightharpoonup> mc_result"
  generator :: rng

definition monte_carlo_option :: "mc_args \<Rightarrow> app_state \<Rightarrow> mc_result \<times> app_state" where
  "monte_carlo_option args s =
     (case cache s args of
        Some res \<Rightarrow> (res, s)
      | None \<Rightarrow>
          (let (res, g') = monte_carlo_option_body args (generator s)
           in (res, s\<lparr>cache := (cache s)(args \<mapsto> res), generator := g'\<rparr>)))"


definition fresh_state :: "rng \<Rightarrow> app_state" where
  "fresh_state g = \<lparr>cache = Map.empty, generator = g\<rparr>"

text \<open>An example run: one simulation of a call with \<open>S = K = T = sigma = 1\<close> and
  \<open>r = 0\<close>, from a fresh state whose generator is going to return 0, 1, 2 and so on;
  and the state that the first call leaves.\<close>

definition example_args :: mc_args where
  "example_args = (1, 1, 1, 0, 1, 1, ''call'')"

definition after_first_call :: app_state where
  "after_first_call = snd (monte_carlo_option example_args (fresh_state real))"

section \<open>Properties\<close>

subsection \<open>Payoff of one option\<close>

lemmas payoff_defs = option_payoff_def np_maximum_def arr_sub_scalar_def scalar_sub_arr_def

lemma option_payoff_map:
  "option_payoff S_range K ot =
     map (\<lambda>S. if ot = ''call'' then max (S - K) 0 else max (K - S) 0) S_range"
  by (simp add: payoff_defs)

text \<open>
  Claim C6.  For every price grid, strike \<open>K\<close> and option type, \<open>option_payoff\<close>
  returns a sequence of the length and in the order of the grid, whose element at a
  terminal price \<open>S\<close> is \<open>max (S - K) 0\<close> for a call and \<open>max (K - S) 0\<close> for a put.
  Where \<open>S\<close> equals \<open>K\<close> it is 0 for both types, and on the grid \<open>[50, 100, 150]\<close> with
  strike 100 the call payoff is \<open>[0, 0, 50]\<close> and the put payoff \<open>[50, 0, 0]\<close>.
\<close>

theorem option_payoff_spec:
  "option_payoff S_range K ''call'' = map (\<lambda>S. max (S - K) 0) S_range
   \<and> option_payoff S_range K ''put'' = map (\<lambda>S. max (K - S) 0) S_range
   \<and> length (option_payoff S_range K option_type) = length S_range
   \<and> (\<forall>i < length S_range. S_range ! i = K \<longrightarrow> option_payoff S_range K option_type ! i = 0)
   \<and> option_payoff [50, 100, 150] 100 ''call'' = [0, 0, 50]
   \<and> option_payoff [50, 100, 150] 100 ''put'' = [50, 0, 0]"
  by (simp add: option_payoff_map)

theorem option_payoff_spec_witness:
  "(1::nat) < length [50, 100, 150 :: real] \<and> [50, 100, 150 :: real] ! 1 = 100
   \<and> option_payoff [50, 100, 150] 100 ''call'' ! 1 = 0
   \<and> option_payoff [50, 100, 150] 100 ''put'' ! 1 = 0"
  using option_payoff_spec [of "[50, 100, 150]" 100 "''call''"]
        option_payoff_spec [of "[50, 100, 150]" 100 "''put''"]
  by simp

subsection \<open>Payoff of a strategy\<close>

text \<open>One pass of the loop adds, at every grid point, the signed and scaled payoff of
  the position to the running curve, and its signed and scaled premium to the running
  cost.  The running curve is written as a function of the grid point.\<close>

lemma strategy_step_map:
  "strategy_step S_range (map f S_range, c) pos =
     (map (\<lambda>S. f S + real_of_int (multiplier pos) *
                (if ptype pos = ''call'' then max (S - strike pos) 0 else max (strike pos - S) 0)) S_range,
      c + real_of_int (multiplier pos) * premium pos)"
  by (simp add: strategy_step_def option_payoff_map arr_add_def scalar_mul_arr_def map2_map_map Let_def)

lemma strategy_loop_map:
  "strategy_loop S_range (map f S_range, c) positions =
     (map (\<lambda>S. f S + (\<Sum>pos\<leftarrow>positions. real_of_int (multiplier pos) *
                (if ptype pos = ''call'' then max (S - strike pos) 0 else max (strike pos - S) 0))) S_range,
      c + (\<Sum>pos\<leftarrow>positions. real_of_int (multiplier pos) * premium pos))"
proof (induction positions arbitrary: f c)
  case Nil
  show ?case by simp
next
  case (Cons pos positions)
  show ?case
    by (simp only: strategy_loop.simps strategy_step_map Cons.IH) (simp add: add.assoc)
qed

text \<open>
  Claim C5.  For every price grid and every list of positions, \<open>strategy_payoff\<close>
  returns at each grid point the sum over the positions of the position's option
  payoff at that price times its sign (1 for \<^verbatim>\<open>buy\<close>, -1 otherwise) times its quantity,
  minus the net premium: the sum over the positions of premium times quantity times
  sign, which does not depend on the grid point.  With no position the result is the
  all-zero sequence of the length of the grid.
\<close>

theorem strategy_payoff_spec:
  "strategy_payoff S_range positions =
     map (\<lambda>S. (\<Sum>pos\<leftarrow>positions.
                  (if ptype pos = ''call'' then max (S - strike pos) 0 else max (strike pos - S) 0)
                  * (if action pos = ''buy'' then 1 else - 1) * real_of_int (quantity pos))
              - (\<Sum>pos\<leftarrow>positions.
                  premium pos * real_of_int (quantity pos) * (if action pos = ''buy'' then 1 else - 1)))
         S_range
   \<and> length (strategy_payoff S_range positions) = length S_range
   \<and> strategy_payoff S_range [] = replicate (length S_range) 0"
proof -
  have z: "np_zeros_like S_range = map (\<lambda>_. 0) S_range"
    by (simp add: np_zeros_like_def)
  have m: "real_of_int (multiplier pos) =
      (if action pos = ''buy'' then 1 else - 1) * real_of_int (quantity pos)" for pos
    by (simp add: multiplier_def)
  have eq: "strategy_payoff S_range ps =
     map (\<lambda>S. (\<Sum>pos\<leftarrow>ps.
                  (if ptype pos = ''call'' then max (S - strike pos) 0 else max (strike pos - S) 0)
                  * (if action pos = ''buy'' then 1 else - 1) * real_of_int (quantity pos))
              - (\<Sum>pos\<leftarrow>ps.
                  premium pos * real_of_int (quantity pos) * (if action pos = ''buy'' then 1 else - 1)))
         S_range" for ps
    unfolding strategy_payoff_def z strategy_loop_map
    by (simp add: arr_sub_scalar_def m mult_ac)
  show ?thesis
    unfolding eq by (simp add: map_replicate_const)
qed

subsection \<open>Price grid\<close>





subsection \<open>Analytic pricer\<close>

lemma logistic_symmetric: "logistic (- x) = 1 - logistic x"
proof -
  have p: "0 < 1 + exp x" "0 < 1 + exp (- x)"
    by (simp_all add: add_pos_pos)
  have "exp x * exp (- x) = 1"
    by (simp add: exp_minus)
  then show ?thesis
    using p by (simp add: logistic_def field_simps)
qed

lemma logistic_range: "0 \<le> logistic x \<and> logistic x \<le> 1"
proof -
  have "0 < exp (- x)" by simp
  then show ?thesis
    by (simp add: logistic_def field_simps add_pos_pos)
qed

text \<open>
  Claim C2.  Put-call parity: for every valid MarketParams (\<open>S\<close>, \<open>K\<close>, \<open>T\<close> and
  \<open>sigma\<close> positive), the price of the call minus the price of the put equals
  \<open>S - K * exp (- r * T)\<close>.  Of \<open>norm_cdf\<close> the identity needs the symmetry of the
  normal distribution function, \<open>norm_cdf (- x) = 1 - norm_cdf x\<close>.  Prices are real
  numbers here, so the identity is exact; on doubles it holds up to rounding.
\<close>

theorem put_call_parity:
  assumes "\<forall>x. norm_cdf (- x) = 1 - norm_cdf x"
    and "0 < S" and "0 < K" and "0 < T" and "0 < sigma"
  shows "black_scholes norm_cdf S K T r sigma ''call'' - black_scholes norm_cdf S K T r sigma ''put''
         = S - K * exp (- r * T)"
proof -
  let ?d1 = "(ln (S / K) + (r + 0.5 * sigma ^ 2) * T) / (sigma * sqrt T)"
  let ?d2 = "?d1 - sigma * sqrt T"
  have s1: "norm_cdf (- ?d1) = 1 - norm_cdf ?d1" and s2: "norm_cdf (- ?d2) = 1 - norm_cdf ?d2"
    using assms(1) by blast+
  have "black_scholes norm_cdf S K T r sigma ''call'' - black_scholes norm_cdf S K T r sigma ''put''
        = S * norm_cdf ?d1 - K * exp (- r * T) * norm_cdf ?d2
          - (K * exp (- r * T) * norm_cdf (- ?d2) - S * norm_cdf (- ?d1))"
    by (simp add: black_scholes_def Let_def)
  also have "\<dots> = S - K * exp (- r * T)"
    unfolding s1 s2 by (simp add: algebra_simps)
  finally show ?thesis .
qed

theorem put_call_parity_witness:
  "(\<forall>x. logistic (- x) = 1 - logistic x)
   \<and> (0::real) < 100 \<and> (0::real) < 1 \<and> (0::real) < 0.2
   \<and> black_scholes logistic 100 100 1 0.05 0.2 ''call'' - black_scholes logistic 100 100 1 0.05 0.2 ''put''
       = 100 - 100 * exp (- 0.05 * 1)"
proof -
  have sym: "\<forall>x. logistic (- x) = 1 - logistic x"
    by (simp add: logistic_symmetric)
  have h: "(0::real) < 100" "(0::real) < 1" "(0::real) < 0.2" by simp_all
  from put_call_parity [OF sym h(1) h(1) h(2) h(3), where r = "0.05"] sym show ?thesis
    by simp
qed

lemma norm_pdf_nonneg: "0 \<le> norm_pdf x"
  by (simp add: norm_pdf_def)

text \<open>
  Claim C4.  Sign bounds of the Greeks: for every valid MarketParams (\<open>S\<close>, \<open>K\<close>, \<open>T\<close>
  and \<open>sigma\<close> positive, \<open>r\<close> not negative), Delta lies in \<open>[0, 1]\<close> for a call and in
  \<open>[-1, 0]\<close> for a put, and Gamma and Vega are not negative for either option type.
  Of \<open>norm_cdf\<close> the bounds of Delta need that its values lie in \<open>[0, 1]\<close>.
\<close>

theorem greeks_sign_bounds:
  assumes "\<forall>x. 0 \<le> norm_cdf x \<and> norm_cdf x \<le> 1"
    and "0 < S" and "0 < K" and "0 < T" and "0 < sigma" and "0 \<le> r"
  shows "0 \<le> Delta (calculate_greeks norm_cdf S K T r sigma ''call'')
       \<and> Delta (calculate_greeks norm_cdf S K T r sigma ''call'') \<le> 1
       \<and> - 1 \<le> Delta (calculate_greeks norm_cdf S K T r sigma ''put'')
       \<and> Delta (calculate_greeks norm_cdf S K T r sigma ''put'') \<le> 0
       \<and> 0 \<le> Gamma (calculate_greeks norm_cdf S K T r sigma option_type)
       \<and> 0 \<le> Vega (calculate_greeks norm_cdf S K T r sigma option_type)"
proof -
  let ?d1 = "(ln (S / K) + (r + 0.5 * sigma ^ 2) * T) / (sigma * sqrt T)"
  have cdf: "0 \<le> norm_cdf ?d1" "norm_cdf ?d1 \<le> 1"
    using assms(1) by simp_all
  have den: "0 \<le> S * sigma * sqrt T"
    using assms by simp
  have gamma: "0 \<le> norm_pdf ?d1 / (S * sigma * sqrt T)"
    using norm_pdf_nonneg den by (rule divide_nonneg_nonneg)
  have vega: "0 \<le> S * norm_pdf ?d1 * sqrt T / 100"
    using assms norm_pdf_nonneg [of ?d1] by simp
  show ?thesis
    using cdf gamma vega by (simp add: calculate_greeks_def Let_def)
qed

theorem greeks_sign_bounds_witness:
  "(\<forall>x. 0 \<le> logistic x \<and> logistic x \<le> 1)
   \<and> (0::real) < 100 \<and> (0::real) < 1 \<and> (0::real) < 0.2 \<and> (0::real) \<le> 0.05
   \<and> 0 \<le> Delta (calculate_greeks logistic 100 100 1 0.05 0.2 ''call'')
   \<and> Delta (calculate_greeks logistic 100 100 1 0.05 0.2 ''call'') \<le> 1
   \<and> - 1 \<le> Delta (calculate_greeks logistic 100 100 1 0.05 0.2 ''put'')
   \<and> Delta (calculate_greeks logistic 100 100 1 0.05 0.2 ''put'') \<le> 0
   \<and> 0 \<le> Gamma (calculate_greeks logistic 100 100 1 0.05 0.2 ''call'')
   \<and> 0 \<le> Vega (calculate_greeks logistic 100 100 1 0.05 0.2 ''put'')"
proof -
  have rng: "\<forall>x. 0 \<le> logistic x \<and> logistic x \<le> 1"
    using logistic_range by blast
  have h: "(0::real) < 100" "(0::real) < 1" "(0::real) < 0.2" "(0::real) \<le> 0.05" by simp_all
  from greeks_sign_bounds [OF rng h(1) h(1) h(2) h(3) h(4), of "''call''"]
       greeks_sign_bounds [OF rng h(1) h(1) h(2) h(3) h(4), of "''put''"] rng
  show ?thesis by simp
qed

subsection \<open>Arrays of numbers and arrays with a nan\<close>

lemma nums_map_Num: "nums (map Num xs) = Some xs"
  by (induction xs) simp_all

lemma np_mean_Num:
  "np_mean (map Num ys) = (if ys = [] then NaN else Num (sum_list ys / real (length ys)))"
  by (simp add: np_mean_def nums_map_Num)










subsection \<open>Simulation pricer\<close>

text \<open>The body in one equation: the sample, the discounted mean of its payoffs (nan
  when there is no simulation), and the generator after \<open>simulations\<close> draws.\<close>

lemma option_payoff_length: "length (option_payoff S_range K ot) = length S_range"
  by (simp add: option_payoff_map)


lemma monte_carlo_option_body_eq:
  "monte_carlo_option_body (S, K, T, r, sigma, simulations, option_type) g =
     (let S_T = map (\<lambda>z. S * exp ((r - 0.5 * sigma ^ 2) * T + sigma * sqrt T * z))
                    (fst (standard_normal simulations g))
      in ((if simulations = 0 then NaN
           else Num (exp (- r * T) * (sum_list (option_payoff S_T K option_type) / real simulations)),
           S_T),
          \<lambda>i. g (simulations + i)))"
  by (simp add: monte_carlo_option_body_def Let_def standard_normal_def np_mean_Num
      option_payoff_map split: prod.splits)


lemma monte_carlo_option_hit:
  "cache s args = Some res \<Longrightarrow> monte_carlo_option args s = (res, s)"
  by (simp add: monte_carlo_option_def)

lemma monte_carlo_option_miss:
  "cache s args = None \<Longrightarrow>
   monte_carlo_option args s =
     (fst (monte_carlo_option_body args (generator s)),
      s\<lparr>cache := (cache s)(args \<mapsto> fst (monte_carlo_option_body args (generator s))),
        generator := snd (monte_carlo_option_body args (generator s))\<rparr>)"
  by (simp add: monte_carlo_option_def split: prod.splits)







text \<open>The first call of the example run draws the variate 0 and stores its result.\<close>

lemma first_call:
  "monte_carlo_option example_args (fresh_state real) =
     ((Num 0, [exp (- 1 / 2)]),
      \<lparr>cache = [example_args \<mapsto> (Num 0, [exp (- 1 / 2)])], generator = (\<lambda>i. real (1 + i))\<rparr>)"
  by (simp add: monte_carlo_option_miss fresh_state_def)
     (simp add: example_args_def monte_carlo_option_body_eq standard_normal_def option_payoff_map)

text \<open>
  Claim C9, as stated: \<open>monte_carlo_option\<close> draws fresh randomness on every call, so
  that the sample is regenerated also by the second of two consecutive calls with
  identical inputs, and the function does not keep the sample.  It fails on the
  example run: the first call returns the sample \<open>[exp (- 1 / 2)]\<close> from the variate 0;
  the next variate of the generator is 1, from which the body would compute
  \<open>[exp (1 / 2)]\<close>; the second call returns \<open>[exp (- 1 / 2)]\<close> again and leaves the
  generator where it was.
\<close>

theorem monte_carlo_option_replay_counterexample:
  "snd (fst (monte_carlo_option example_args (fresh_state real))) = [exp (- 1 / 2)]
   \<and> snd (fst (monte_carlo_option example_args after_first_call)) = [exp (- 1 / 2)]
   \<and> fst (standard_normal 1 (generator after_first_call)) = [1]
   \<and> snd (fst (monte_carlo_option_body example_args (generator after_first_call))) = [exp (1 / 2)]
   \<and> exp (- 1 / 2) \<noteq> exp (1 / 2 :: real)
   \<and> generator (snd (monte_carlo_option example_args after_first_call)) = generator after_first_call"
proof -
  have a: "after_first_call =
      \<lparr>cache = [example_args \<mapsto> (Num 0, [exp (- 1 / 2)])], generator = (\<lambda>i. real (1 + i))\<rparr>"
    by (simp add: after_first_call_def first_call)
  have second: "monte_carlo_option example_args after_first_call = ((Num 0, [exp (- 1 / 2)]), after_first_call)"
    by (rule monte_carlo_option_hit) (simp add: a)
  have fresh: "snd (fst (monte_carlo_option_body example_args (generator after_first_call))) = [exp (1 / 2)]"
    by (simp add: a example_args_def monte_carlo_option_body_eq standard_normal_def Let_def)
  have draw: "fst (standard_normal 1 (generator after_first_call)) = [1]"
    by (simp add: a standard_normal_def)
  show ?thesis
    using fresh draw by (simp add: first_call second)
qed

text \<open>
  Claim C9, amended.  \<open>monte_carlo_option\<close> is memoised on its arguments by
  \<^verbatim>\<open>st.cache_data\<close>.  A call whose arguments have no stored result runs the body, which
  draws \<open>simulations\<close> fresh variates from the generator, and stores the pair it
  returns under the arguments.  A call whose arguments have a stored result returns
  that pair and leaves the state, its generator included, as it was; so the second
  of two consecutive calls with identical inputs returns the price and the sample of
  the first and draws nothing.
\<close>

theorem monte_carlo_option_memoised:
  "(cache s args = None \<longrightarrow>
      fst (monte_carlo_option args s) = fst (monte_carlo_option_body args (generator s))
      \<and> generator (snd (monte_carlo_option args s)) = snd (monte_carlo_option_body args (generator s))
      \<and> cache (snd (monte_carlo_option args s)) args = Some (fst (monte_carlo_option args s)))
   \<and> (cache s args \<noteq> None \<longrightarrow>
      cache s args = Some (fst (monte_carlo_option args s))
      \<and> snd (monte_carlo_option args s) = s)
   \<and> monte_carlo_option args (snd (monte_carlo_option args s)) =
       (fst (monte_carlo_option args s), snd (monte_carlo_option args s))
   \<and> snd (monte_carlo_option_body (S, K, T, r, sigma, simulations, option_type) g) = (\<lambda>i. g (simulations + i))"
proof -
  have miss: "fst (monte_carlo_option args s) = fst (monte_carlo_option_body args (generator s))
      \<and> generator (snd (monte_carlo_option args s)) = snd (monte_carlo_option_body args (generator s))
      \<and> cache (snd (monte_carlo_option args s)) args = Some (fst (monte_carlo_option args s))"
    if "cache s args = None"
    by (simp add: monte_carlo_option_miss [OF that])
  have hit: "cache s args = Some (fst (monte_carlo_option args s)) \<and> snd (monte_carlo_option args s) = s"
    if "cache s args \<noteq> None"
  proof -
    from that obtain res where "cache s args = Some res" by blast
    then show ?thesis by (simp add: monte_carlo_option_hit)
  qed
  have stored: "cache (snd (monte_carlo_option args s)) args = Some (fst (monte_carlo_option args s))"
    using miss hit by (cases "cache s args") simp_all
  have twice: "monte_carlo_option args (snd (monte_carlo_option args s)) =
       (fst (monte_carlo_option args s), snd (monte_carlo_option args s))"
    using stored by (rule monte_carlo_option_hit)
  have adv: "snd (monte_carlo_option_body (S, K, T, r, sigma, simulations, option_type) g)
      = (\<lambda>i. g (simulations + i))"
    by (simp add: monte_carlo_option_body_eq Let_def)
  from miss hit twice adv show ?thesis by blast
qed

theorem monte_carlo_option_memoised_witness:
  "cache (fresh_state real) example_args = None
   \<and> snd (fst (monte_carlo_option example_args (fresh_state real))) = [exp (- 1 / 2)]
   \<and> generator (snd (monte_carlo_option example_args (fresh_state real))) = (\<lambda>i. real (1 + i))
   \<and> cache after_first_call example_args \<noteq> None
   \<and> snd (monte_carlo_option example_args after_first_call) = after_first_call
   \<and> monte_carlo_option example_args after_first_call
       = (fst (monte_carlo_option example_args (fresh_state real)), after_first_call)"
proof -
  have none: "cache (fresh_state real) example_args = None"
    by (simp add: fresh_state_def)
  have body: "monte_carlo_option_body example_args real = ((Num 0, [exp (- 1 / 2)]), \<lambda>i. real (1 + i))"
    by (simp add: example_args_def monte_carlo_option_body_eq standard_normal_def option_payoff_map)
  note m = monte_carlo_option_memoised [of "fresh_state real" example_args]
  from m none have 1: "fst (monte_carlo_option example_args (fresh_state real))
        = fst (monte_carlo_option_body example_args (generator (fresh_state real)))"
    and 2: "generator (snd (monte_carlo_option example_args (fresh_state real)))
        = snd (monte_carlo_option_body example_args (generator (fresh_state real)))"
    and 3: "cache after_first_call example_args
        = Some (fst (monte_carlo_option example_args (fresh_state real)))"
    and 4: "monte_carlo_option example_args after_first_call
       = (fst (monte_carlo_option example_args (fresh_state real)), after_first_call)"
    unfolding after_first_call_def by blast+
  from 3 have some: "cache after_first_call example_args \<noteq> None"
    by simp
  note m' = monte_carlo_option_memoised [of after_first_call example_args]
  from m' some have 5: "snd (monte_carlo_option example_args after_first_call) = after_first_call"
    by blast
  have g: "generator (fresh_state real) = real"
    by (simp add: fresh_state_def)
  from none 1 2 some 4 5 show ?thesis
    by (simp add: g body)
qed

subsection \<open>Risk statistics\<close>










end
